theory Spec2Isabelle
  imports Main "HOL-Library.Word" "HOL-Library.Multiset"
begin

section \<open>Values handled by the Interest class\<close>

type_synonym byte = "8 word"

text \<open>
  Modelled from the spec: the Blob class (pyndn.util.blob) is not among the source files.
  The spec describes it as an immutable sequence of bytes with value equality and an
  empty state of size 0; \<open>Blob()\<close> is the empty buffer.
\<close>

type_synonym blob = "byte list"

definition Blob_empty :: blob where
  "Blob_empty = []"

definition blob_size :: "blob \<Rightarrow> nat" where
  "blob_size b = length b"

definition blob_buf :: "blob \<Rightarrow> byte list" where
  "blob_buf b = b"

text \<open>
  Modelled from the spec: the sub-object classes Name, KeyLocator and Exclude are not
  among the source files. The spec gives their contract only: each exposes a mutation
  counter, the name and the exclusion filter expose a canonical textual form, and the
  exclusion filter exposes \<open>size()\<close>. A sub-object is the record of these observations.
\<close>

record name =
  name_uri :: string
  name_changeCount :: int

record key_locator =
  keyLocator_type :: "nat option"
  keyLocator_changeCount :: int

record exclude =
  exclude_uri :: string
  exclude_size :: nat
  exclude_changeCount :: int

definition Name_empty :: name where
  "Name_empty = \<lparr>name_uri = ''/'', name_changeCount = 0\<rparr>"

definition KeyLocator_empty :: key_locator where
  "KeyLocator_empty = \<lparr>keyLocator_type = None, keyLocator_changeCount = 0\<rparr>"

definition Exclude_empty :: exclude where
  "Exclude_empty = \<lparr>exclude_uri = [], exclude_size = 0, exclude_changeCount = 0\<rparr>"

text \<open>
  The arguments of the setters are untyped in Python. The values the setters inspect with
  \<open>type(...)\<close> are class instances, \<open>None\<close>, raw bytes and class objects themselves;
  a class object is a value distinct from every instance.
\<close>

datatype pytype = NoneType | NameType | KeyLocatorType | ExcludeType | BlobType | BytesType | TypeType

datatype pyobj =
    PyNone
  | PyName name
  | PyKeyLocator key_locator
  | PyExclude exclude
  | PyBlob blob
  | PyBytes "byte list"
  | PyType pytype

fun py_type :: "pyobj \<Rightarrow> pytype" where
  "py_type PyNone = NoneType"
| "py_type (PyName n) = NameType"
| "py_type (PyKeyLocator k) = KeyLocatorType"
| "py_type (PyExclude e) = ExcludeType"
| "py_type (PyBlob b) = BlobType"
| "py_type (PyBytes bs) = BytesType"
| "py_type (PyType t) = TypeType"

text \<open>
  Modelled from the spec: the constructors \<open>Name(v)\<close>, \<open>KeyLocator(v)\<close>, \<open>Exclude(v)\<close>
  and \<open>Blob(v)\<close> are missing. Following the spec, a constructor copies an argument that
  is already of its class and yields the default-constructed empty instance otherwise;
  \<open>Blob(v)\<close> wraps raw bytes.
\<close>

fun Name_new :: "pyobj \<Rightarrow> name" where
  "Name_new (PyName n) = n"
| "Name_new v = Name_empty"

fun KeyLocator_new :: "pyobj \<Rightarrow> key_locator" where
  "KeyLocator_new (PyKeyLocator k) = k"
| "KeyLocator_new v = KeyLocator_empty"

fun Exclude_new :: "pyobj \<Rightarrow> exclude" where
  "Exclude_new (PyExclude e) = e"
| "Exclude_new v = Exclude_empty"

fun Blob_new :: "pyobj \<Rightarrow> blob" where
  "Blob_new (PyBlob b) = b"
| "Blob_new (PyBytes bs) = bs"
| "Blob_new v = Blob_empty"

text \<open>The instance held by a value, as the branch \<open>v if type(v) == C\<close> stores it.\<close>

fun the_name :: "pyobj \<Rightarrow> name" where
  "the_name (PyName n) = n"
| "the_name v = Name_new v"

fun the_keyLocator :: "pyobj \<Rightarrow> key_locator" where
  "the_keyLocator (PyKeyLocator k) = k"
| "the_keyLocator v = KeyLocator_new v"

fun the_exclude :: "pyobj \<Rightarrow> exclude" where
  "the_exclude (PyExclude e) = e"
| "the_exclude v = Exclude_new v"

fun the_blob :: "pyobj \<Rightarrow> blob" where
  "the_blob (PyBlob b) = b"
| "the_blob v = Blob_new v"

section \<open>The change-tracked wrapper\<close>

text \<open>
  Modelled from the spec: the ChangeCounter class (pyndn.util.change_counter) is missing.
  Section 4.1 of the spec: the wrapper owns one value and a cached snapshot of the value's
  mutation counter; \<open>get\<close> returns the value; \<open>set\<close> replaces the value and does not
  update the snapshot; \<open>checkChanged\<close> returns whether the value's counter differs from
  the snapshot and always sets the snapshot to the current counter. The spec does not say
  what the snapshot is at construction; it is taken to be the counter of the value given.
  The first argument of each operation reads the mutation counter of the owned value.
\<close>

record 'a change_counter =
  cc_target :: 'a
  cc_changeCount :: int

definition ChangeCounter_new :: "('a \<Rightarrow> int) \<Rightarrow> 'a \<Rightarrow> 'a change_counter" where
  "ChangeCounter_new cnt t = \<lparr>cc_target = t, cc_changeCount = cnt t\<rparr>"

definition cc_get :: "'a change_counter \<Rightarrow> 'a" where
  "cc_get w = cc_target w"

definition cc_set :: "'a \<Rightarrow> 'a change_counter \<Rightarrow> 'a change_counter" where
  "cc_set t w = w\<lparr>cc_target := t\<rparr>"

definition checkChanged :: "('a \<Rightarrow> int) \<Rightarrow> 'a change_counter \<Rightarrow> bool \<times> 'a change_counter" where
  "checkChanged cnt w =
     (cc_changeCount w \<noteq> cnt (cc_target w), w\<lparr>cc_changeCount := cnt (cc_target w)\<rparr>)"

section \<open>The Interest class\<close>

text \<open>
  The fields of \<open>Interest.__init__\<close>. The lifetime is a Python float; floats are kept
  abstract as the type parameter \<open>'f\<close>. Python integers are unbounded, so the counters
  are of type \<open>int\<close>.
\<close>

record 'f interest =
  i_name :: "name change_counter"
  i_minSuffixComponents :: "int option"
  i_maxSuffixComponents :: "int option"
  i_keyLocator :: "key_locator change_counter"
  i_exclude :: "exclude change_counter"
  i_childSelector :: "int option"
  i_mustBeFresh :: bool
  i_nonce :: blob
  i_scope :: "int option"
  i_interestLifetimeMilliseconds :: "'f option"
  i_getNonceChangeCount :: int
  i_changeCount :: int

definition Interest_init :: "pyobj \<Rightarrow> 'f interest" where
  "Interest_init nm =
     \<lparr>i_name = ChangeCounter_new name_changeCount
                 (if PyType (py_type nm) = PyType NameType then the_name nm else Name_new nm),
      i_minSuffixComponents = None,
      i_maxSuffixComponents = None,
      i_keyLocator = ChangeCounter_new keyLocator_changeCount KeyLocator_empty,
      i_exclude = ChangeCounter_new exclude_changeCount Exclude_empty,
      i_childSelector = None,
      i_mustBeFresh = False,
      i_nonce = Blob_empty,
      i_scope = None,
      i_interestLifetimeMilliseconds = None,
      i_getNonceChangeCount = 0,
      i_changeCount = 0\<rparr>"

subsection \<open>Getters without effect\<close>

definition getName :: "'f interest \<Rightarrow> name" where
  "getName s = cc_get (i_name s)"

definition getKeyLocator :: "'f interest \<Rightarrow> key_locator" where
  "getKeyLocator s = cc_get (i_keyLocator s)"

definition getExclude :: "'f interest \<Rightarrow> exclude" where
  "getExclude s = cc_get (i_exclude s)"

subsection \<open>getChangeCount and getNonce\<close>

text \<open>
  \<open>getChangeCount\<close> calls \<open>checkChanged\<close> on the three wrappers in turn; in
  \<open>w.checkChanged() or changed\<close> the call is the left operand, so it is always made.
\<close>

definition getChangeCount :: "'f interest \<Rightarrow> int \<times> 'f interest" where
  "getChangeCount s =
     (case checkChanged name_changeCount (i_name s) of (c1, nm) \<Rightarrow>
      case checkChanged keyLocator_changeCount (i_keyLocator s) of (c2, kl) \<Rightarrow>
      case checkChanged exclude_changeCount (i_exclude s) of (c3, ex) \<Rightarrow>
        let changed = c1;
            changed = (c2 \<or> changed);
            changed = (c3 \<or> changed);
            s1 = s\<lparr>i_name := nm, i_keyLocator := kl, i_exclude := ex\<rparr>;
            s2 = (if changed then s1\<lparr>i_changeCount := i_changeCount s1 + 1\<rparr> else s1)
        in (i_changeCount s2, s2))"

definition getNonce :: "'f interest \<Rightarrow> blob \<times> 'f interest" where
  "getNonce s =
     (case getChangeCount s of (c, s1) \<Rightarrow>
        if i_getNonceChangeCount s \<noteq> c then
          (let s2 = s1\<lparr>i_nonce := Blob_empty\<rparr> in
           case getChangeCount s2 of (c', s3) \<Rightarrow>
             let s4 = s3\<lparr>i_getNonceChangeCount := c'\<rparr> in (i_nonce s4, s4))
        else (i_nonce s1, s1))"

subsection \<open>Setters\<close>

definition setName :: "pyobj \<Rightarrow> 'f interest \<Rightarrow> 'f interest" where
  "setName nm s =
     (let s1 = s\<lparr>i_name := cc_set (if PyType (py_type nm) = PyType NameType then the_name nm
                                     else Name_new nm) (i_name s)\<rparr>
      in s1\<lparr>i_changeCount := i_changeCount s1 + 1\<rparr>)"

definition setMinSuffixComponents :: "int option \<Rightarrow> 'f interest \<Rightarrow> 'f interest" where
  "setMinSuffixComponents v s =
     (let s1 = s\<lparr>i_minSuffixComponents := v\<rparr> in s1\<lparr>i_changeCount := i_changeCount s1 + 1\<rparr>)"

definition setMaxSuffixComponents :: "int option \<Rightarrow> 'f interest \<Rightarrow> 'f interest" where
  "setMaxSuffixComponents v s =
     (let s1 = s\<lparr>i_maxSuffixComponents := v\<rparr> in s1\<lparr>i_changeCount := i_changeCount s1 + 1\<rparr>)"

text \<open>
  \<open>setKeyLocator\<close> and \<open>setExclude\<close> compare \<open>type(v)\<close>, a class object, with a newly
  constructed instance \<open>KeyLocator(v)\<close> or \<open>Exclude(v)\<close>. Neither class takes part in
  the comparison of a class object with an instance, so \<open>==\<close> is identity of values.
\<close>

definition setKeyLocator :: "pyobj \<Rightarrow> 'f interest \<Rightarrow> 'f interest" where
  "setKeyLocator v s =
     (let s1 = s\<lparr>i_keyLocator :=
                   cc_set (if PyType (py_type v) = PyKeyLocator (KeyLocator_new v)
                           then the_keyLocator v else KeyLocator_empty) (i_keyLocator s)\<rparr>
      in s1\<lparr>i_changeCount := i_changeCount s1 + 1\<rparr>)"

definition setExclude :: "pyobj \<Rightarrow> 'f interest \<Rightarrow> 'f interest" where
  "setExclude v s =
     (let s1 = s\<lparr>i_exclude :=
                   cc_set (if PyType (py_type v) = PyExclude (Exclude_new v)
                           then the_exclude v else Exclude_empty) (i_exclude s)\<rparr>
      in s1\<lparr>i_changeCount := i_changeCount s1 + 1\<rparr>)"

definition setChildSelector :: "int option \<Rightarrow> 'f interest \<Rightarrow> 'f interest" where
  "setChildSelector v s =
     (let s1 = s\<lparr>i_childSelector := v\<rparr> in s1\<lparr>i_changeCount := i_changeCount s1 + 1\<rparr>)"

definition setMustBeFresh :: "bool \<Rightarrow> 'f interest \<Rightarrow> 'f interest" where
  "setMustBeFresh v s =
     (let s1 = s\<lparr>i_mustBeFresh := (if v then True else False)\<rparr>
      in s1\<lparr>i_changeCount := i_changeCount s1 + 1\<rparr>)"

definition setNonce :: "pyobj \<Rightarrow> 'f interest \<Rightarrow> 'f interest" where
  "setNonce v s =
     (let s1 = s\<lparr>i_nonce := (if PyType (py_type v) = PyType BlobType then the_blob v
                              else Blob_new v)\<rparr>;
          s2 = s1\<lparr>i_changeCount := i_changeCount s1 + 1\<rparr>
      in case getChangeCount s2 of (c, s3) \<Rightarrow> s3\<lparr>i_getNonceChangeCount := c\<rparr>)"

definition setScope :: "int option \<Rightarrow> 'f interest \<Rightarrow> 'f interest" where
  "setScope v s =
     (let s1 = s\<lparr>i_scope := v\<rparr> in s1\<lparr>i_changeCount := i_changeCount s1 + 1\<rparr>)"

text \<open>
  The argument of \<open>setInterestLifetimeMilliseconds\<close> is \<open>None\<close> or a float, on which
  \<open>float(...)\<close> is the identity.
\<close>

definition setInterestLifetimeMilliseconds :: "'f option \<Rightarrow> 'f interest \<Rightarrow> 'f interest" where
  "setInterestLifetimeMilliseconds v s =
     (let s1 = s\<lparr>i_interestLifetimeMilliseconds := (if v = None then None else v)\<rparr>
      in s1\<lparr>i_changeCount := i_changeCount s1 + 1\<rparr>)"

section \<open>Polling, as predicates and as a state\<close>

text \<open>Whether a poll of the three wrappers would report a change.\<close>

definition name_changed :: "'f interest \<Rightarrow> bool" where
  "name_changed s = fst (checkChanged name_changeCount (i_name s))"

definition keyLocator_changed :: "'f interest \<Rightarrow> bool" where
  "keyLocator_changed s = fst (checkChanged keyLocator_changeCount (i_keyLocator s))"

definition exclude_changed :: "'f interest \<Rightarrow> bool" where
  "exclude_changed s = fst (checkChanged exclude_changeCount (i_exclude s))"

definition any_changed :: "'f interest \<Rightarrow> bool" where
  "any_changed s = (name_changed s \<or> keyLocator_changed s \<or> exclude_changed s)"

text \<open>The state in which each wrapper has been polled and nothing else has happened.\<close>

definition polled :: "'f interest \<Rightarrow> 'f interest" where
  "polled s = s\<lparr>i_name := snd (checkChanged name_changeCount (i_name s)),
               i_keyLocator := snd (checkChanged keyLocator_changeCount (i_keyLocator s)),
               i_exclude := snd (checkChanged exclude_changeCount (i_exclude s))\<rparr>"

subsection \<open>toUri\<close>

text \<open>
  Python's \<open>repr\<close> on integers and floats and \<open>Name.toEscapedString\<close> are not among
  the source files; \<open>toUri\<close> takes them as parameters. \<open>selectors[1:]\<close> drops the
  first character.
\<close>

definition toUri ::
  "(int \<Rightarrow> string) \<Rightarrow> ('f \<Rightarrow> string) \<Rightarrow> (byte list \<Rightarrow> string) \<Rightarrow> 'f interest
     \<Rightarrow> string \<times> 'f interest" where
  "toUri repr_int repr_float toEscapedString s =
     (let selectors = [];
          selectors = (if i_minSuffixComponents s \<noteq> None
                       then selectors @ ''&ndn.MinSuffixComponents='' @
                            repr_int (the (i_minSuffixComponents s))
                       else selectors);
          selectors = (if i_maxSuffixComponents s \<noteq> None
                       then selectors @ ''&ndn.MaxSuffixComponents='' @
                            repr_int (the (i_maxSuffixComponents s))
                       else selectors);
          selectors = (if i_childSelector s \<noteq> None
                       then selectors @ ''&ndn.ChildSelector='' @ repr_int (the (i_childSelector s))
                       else selectors);
          selectors = (if i_mustBeFresh s then selectors @ ''&ndn.MustBeFresh=true''
                       else selectors);
          selectors = (if i_scope s \<noteq> None
                       then selectors @ ''&ndn.Scope='' @ repr_int (the (i_scope s))
                       else selectors);
          selectors = (if i_interestLifetimeMilliseconds s \<noteq> None
                       then selectors @ ''&ndn.InterestLifetime='' @
                            repr_float (the (i_interestLifetimeMilliseconds s))
                       else selectors)
      in case getNonce s of (n1, s1) \<Rightarrow>
         case (if blob_size n1 > 0
               then (case getNonce s1 of (n2, s2) \<Rightarrow>
                       (selectors @ ''&ndn.Nonce='' @ toEscapedString (blob_buf n2), s2))
               else (selectors, s1)) of (selectors, s2) \<Rightarrow>
         let selectors = (if exclude_size (getExclude s2) > 0
                          then selectors @ ''&ndn.Exclude='' @ exclude_uri (getExclude s2)
                          else selectors);
             result = name_uri (getName s2);
             result = (if selectors \<noteq> [] then result @ ''?'' @ tl selectors else result)
         in (result, s2))"

text \<open>
  The textual form as the spec words it: the segments that are present, in the fixed
  order, joined with \<open>&\<close>, after the name's URI and a \<open>?\<close>. The nonce is the one
  that the read through \<open>getNonce\<close> gives.
\<close>

fun join_amp :: "string list \<Rightarrow> string" where
  "join_amp [] = []"
| "join_amp [x] = x"
| "join_amp (x # y # ys) = x @ ''&'' @ join_amp (y # ys)"

definition opt_segment :: "string \<Rightarrow> ('a \<Rightarrow> string) \<Rightarrow> 'a option \<Rightarrow> string list" where
  "opt_segment key show v = (case v of None \<Rightarrow> [] | Some x \<Rightarrow> [key @ show x])"

definition spec_segments ::
  "(int \<Rightarrow> string) \<Rightarrow> ('f \<Rightarrow> string) \<Rightarrow> (byte list \<Rightarrow> string) \<Rightarrow> 'f interest \<Rightarrow> blob
     \<Rightarrow> string list" where
  "spec_segments repr_int repr_float toEscapedString s nonce =
     opt_segment ''ndn.MinSuffixComponents='' repr_int (i_minSuffixComponents s) @
     opt_segment ''ndn.MaxSuffixComponents='' repr_int (i_maxSuffixComponents s) @
     opt_segment ''ndn.ChildSelector='' repr_int (i_childSelector s) @
     (if i_mustBeFresh s then [''ndn.MustBeFresh=true''] else []) @
     opt_segment ''ndn.Scope='' repr_int (i_scope s) @
     opt_segment ''ndn.InterestLifetime='' repr_float (i_interestLifetimeMilliseconds s) @
     (if nonce = [] then [] else [''ndn.Nonce='' @ toEscapedString nonce]) @
     (if exclude_size (cc_target (i_exclude s)) = 0 then []
      else [''ndn.Exclude='' @ exclude_uri (cc_target (i_exclude s))])"

definition spec_uri ::
  "(int \<Rightarrow> string) \<Rightarrow> ('f \<Rightarrow> string) \<Rightarrow> (byte list \<Rightarrow> string) \<Rightarrow> 'f interest \<Rightarrow> blob
     \<Rightarrow> string" where
  "spec_uri repr_int repr_float toEscapedString s nonce =
     (let segs = spec_segments repr_int repr_float toEscapedString s nonce
      in name_uri (cc_target (i_name s)) @ (if segs = [] then [] else ''?'' @ join_amp segs))"

text \<open>The nonce is valid when its snapshot equals the recomputed change count.\<close>

definition nonce_valid :: "'f interest \<Rightarrow> bool" where
  "nonce_valid s = (i_getNonceChangeCount s = fst (getChangeCount s))"

section \<open>Sequences of operations\<close>

text \<open>The setters other than \<open>setNonce\<close>, as values, and the field each one assigns.\<close>

datatype 'f setter =
    SetName pyobj
  | SetMinSuffixComponents "int option"
  | SetMaxSuffixComponents "int option"
  | SetKeyLocator pyobj
  | SetExclude pyobj
  | SetChildSelector "int option"
  | SetMustBeFresh bool
  | SetScope "int option"
  | SetInterestLifetimeMilliseconds "'f option"

fun apply_setter :: "'f setter \<Rightarrow> 'f interest \<Rightarrow> 'f interest" where
  "apply_setter (SetName v) s = setName v s"
| "apply_setter (SetMinSuffixComponents v) s = setMinSuffixComponents v s"
| "apply_setter (SetMaxSuffixComponents v) s = setMaxSuffixComponents v s"
| "apply_setter (SetKeyLocator v) s = setKeyLocator v s"
| "apply_setter (SetExclude v) s = setExclude v s"
| "apply_setter (SetChildSelector v) s = setChildSelector v s"
| "apply_setter (SetMustBeFresh v) s = setMustBeFresh v s"
| "apply_setter (SetScope v) s = setScope v s"
| "apply_setter (SetInterestLifetimeMilliseconds v) s = setInterestLifetimeMilliseconds v s"

datatype field =
    FName | FMinSuffixComponents | FMaxSuffixComponents | FKeyLocator | FExclude
  | FChildSelector | FMustBeFresh | FScope | FInterestLifetimeMilliseconds

fun setter_field :: "'f setter \<Rightarrow> field" where
  "setter_field (SetName v) = FName"
| "setter_field (SetMinSuffixComponents v) = FMinSuffixComponents"
| "setter_field (SetMaxSuffixComponents v) = FMaxSuffixComponents"
| "setter_field (SetKeyLocator v) = FKeyLocator"
| "setter_field (SetExclude v) = FExclude"
| "setter_field (SetChildSelector v) = FChildSelector"
| "setter_field (SetMustBeFresh v) = FMustBeFresh"
| "setter_field (SetScope v) = FScope"
| "setter_field (SetInterestLifetimeMilliseconds v) = FInterestLifetimeMilliseconds"

definition apply_setters :: "'f setter list \<Rightarrow> 'f interest \<Rightarrow> 'f interest" where
  "apply_setters xs s = fold apply_setter xs s"

text \<open>
  The caller holds the sub-objects by reference (\<open>getName()\<close>, \<open>getKeyLocator()\<close>,
  \<open>getExclude()\<close>) and may mutate them in place: the wrapper then owns the mutated
  value and its snapshot is as before.
\<close>

definition mutate_name :: "name \<Rightarrow> 'f interest \<Rightarrow> 'f interest" where
  "mutate_name n s = s\<lparr>i_name := (i_name s)\<lparr>cc_target := n\<rparr>\<rparr>"

definition mutate_keyLocator :: "key_locator \<Rightarrow> 'f interest \<Rightarrow> 'f interest" where
  "mutate_keyLocator k s = s\<lparr>i_keyLocator := (i_keyLocator s)\<lparr>cc_target := k\<rparr>\<rparr>"

definition mutate_exclude :: "exclude \<Rightarrow> 'f interest \<Rightarrow> 'f interest" where
  "mutate_exclude e s = s\<lparr>i_exclude := (i_exclude s)\<lparr>cc_target := e\<rparr>\<rparr>"

text \<open>
  The snapshot of the name wrapper is not ahead of the name's counter. It holds after
  construction and after every poll, and in-place mutation, which only increases the
  counter, keeps it; only \<open>setName\<close> can break it.
\<close>

definition name_observed :: "'f interest \<Rightarrow> bool" where
  "name_observed s = (cc_changeCount (i_name s) \<le> name_changeCount (cc_target (i_name s)))"

text \<open>
  The operations of the class on one Interest and the mutations of its sub-objects by the
  caller. \<open>wireEncode\<close> and \<open>wireDecode\<close> hand the Interest to an external codec and
  are not part of the model.
\<close>

datatype 'f operation =
    Setter "'f setter"
  | SetNonce pyobj
  | GetNonce
  | GetChangeCount
  | ToUri
  | MutateName name
  | MutateKeyLocator key_locator
  | MutateExclude exclude

fun exec ::
  "(int \<Rightarrow> string) \<Rightarrow> ('f \<Rightarrow> string) \<Rightarrow> (byte list \<Rightarrow> string) \<Rightarrow> 'f operation
     \<Rightarrow> 'f interest \<Rightarrow> 'f interest" where
  "exec ri rf esc (Setter x) s = apply_setter x s"
| "exec ri rf esc (SetNonce v) s = setNonce v s"
| "exec ri rf esc GetNonce s = snd (getNonce s)"
| "exec ri rf esc GetChangeCount s = snd (getChangeCount s)"
| "exec ri rf esc ToUri s = snd (toUri ri rf esc s)"
| "exec ri rf esc (MutateName n) s = mutate_name n s"
| "exec ri rf esc (MutateKeyLocator k) s = mutate_keyLocator k s"
| "exec ri rf esc (MutateExclude e) s = mutate_exclude e s"

definition run ::
  "(int \<Rightarrow> string) \<Rightarrow> ('f \<Rightarrow> string) \<Rightarrow> (byte list \<Rightarrow> string) \<Rightarrow> 'f operation list
     \<Rightarrow> 'f interest \<Rightarrow> 'f interest" where
  "run ri rf esc ops s = fold (exec ri rf esc) ops s"

section \<open>The padding of AesAlgorithm\<close>

datatype EncryptAlgorithmType = AesEcb | AesCbc | RsaPkcs | RsaOaep

datatype error = RuntimeError | IndexError

record encrypt_params =
  algorithmType :: EncryptAlgorithmType
  initialVector :: blob

text \<open>
  \<open>encrypt\<close> computes the pad from the size of the plaintext: a byte string of
  \<open>padLength\<close> bytes, each of value \<open>padLength\<close>.
\<close>

definition encrypt_padLength :: "blob \<Rightarrow> nat" where
  "encrypt_padLength plainData = 16 - (blob_size plainData mod 16)"

definition encrypt_pad :: "blob \<Rightarrow> byte list" where
  "encrypt_pad plainData =
     (let padLength = encrypt_padLength plainData
      in replicate padLength (of_nat padLength))"

text \<open>
  \<open>decrypt\<close> reads the pad length from the last byte and returns
  \<open>resultWithPad[:-padLength]\<close>. The index \<open>-1\<close> raises on an empty result; the slice
  \<open>[:-0]\<close> is \<open>[:0]\<close>, the empty string, and a slice bound before the start is
  the start.
\<close>

definition decrypt_unpad :: "byte list \<Rightarrow> error + blob" where
  "decrypt_unpad resultWithPad =
     (if resultWithPad = [] then Inl IndexError
      else let padLength = unat (last resultWithPad)
           in Inr (if padLength = 0 then []
                   else take (length resultWithPad - padLength) resultWithPad))"

text \<open>
  The cipher object of the PyCrypto library is external. It is a parameter: \<open>AES_new\<close>
  makes the cipher state from the mode, the key and the initial vector (none for ECB),
  and the cipher's \<open>encrypt\<close> and \<open>decrypt\<close> transform bytes and step the state.
\<close>

definition encrypt ::
  "(EncryptAlgorithmType \<Rightarrow> byte list \<Rightarrow> byte list option \<Rightarrow> 'c)
     \<Rightarrow> ('c \<Rightarrow> byte list \<Rightarrow> byte list \<times> 'c)
     \<Rightarrow> blob \<Rightarrow> blob \<Rightarrow> encrypt_params \<Rightarrow> error + blob" where
  "encrypt AES_new cipher_encrypt keyBits plainData params =
     (let pad = encrypt_pad plainData
      in if algorithmType params = AesEcb \<or> algorithmType params = AesCbc then
           (let cipher = (if algorithmType params = AesEcb
                          then AES_new AesEcb (blob_buf keyBits) None
                          else AES_new AesCbc (blob_buf keyBits)
                                 (Some (blob_buf (initialVector params))))
            in case cipher_encrypt cipher (blob_buf plainData) of (c1, cipher1) \<Rightarrow>
               case cipher_encrypt cipher1 pad of (c2, cipher2) \<Rightarrow> Inr (c1 @ c2))
         else Inl RuntimeError)"

definition decrypt ::
  "(EncryptAlgorithmType \<Rightarrow> byte list \<Rightarrow> byte list option \<Rightarrow> 'c)
     \<Rightarrow> ('c \<Rightarrow> byte list \<Rightarrow> byte list \<times> 'c)
     \<Rightarrow> blob \<Rightarrow> blob \<Rightarrow> encrypt_params \<Rightarrow> error + blob" where
  "decrypt AES_new cipher_decrypt keyBits encryptedData params =
     (if algorithmType params = AesEcb \<or> algorithmType params = AesCbc then
        (let cipher = (if algorithmType params = AesEcb
                       then AES_new AesEcb (blob_buf keyBits) None
                       else AES_new AesCbc (blob_buf keyBits)
                              (Some (blob_buf (initialVector params))))
         in case cipher_decrypt cipher (blob_buf encryptedData) of (resultWithPad, cipher1) \<Rightarrow>
              decrypt_unpad resultWithPad)
      else Inl RuntimeError)"

section \<open>Properties of polling\<close>

lemma getChangeCount_snd:
  "snd (getChangeCount s) =
     (polled s)\<lparr>i_changeCount := i_changeCount s + (if any_changed s then 1 else 0)\<rparr>"
  by (simp add: getChangeCount_def polled_def any_changed_def name_changed_def
      keyLocator_changed_def exclude_changed_def checkChanged_def Let_def)

lemma getChangeCount_fst:
  "fst (getChangeCount s) = i_changeCount s + (if any_changed s then 1 else 0)"
  by (simp add: getChangeCount_def any_changed_def name_changed_def
      keyLocator_changed_def exclude_changed_def checkChanged_def Let_def)

lemma any_changed_polled [simp]: "\<not> any_changed (polled s)"
  by (simp add: polled_def any_changed_def name_changed_def
      keyLocator_changed_def exclude_changed_def checkChanged_def)

lemma polled_polled [simp]: "polled (polled s) = polled s"
  by (simp add: polled_def checkChanged_def)

lemma any_changed_update [simp]:
  "any_changed (s\<lparr>i_changeCount := c\<rparr>) = any_changed s"
  "any_changed (s\<lparr>i_nonce := b\<rparr>) = any_changed s"
  "any_changed (s\<lparr>i_getNonceChangeCount := g\<rparr>) = any_changed s"
  by (simp_all add: any_changed_def name_changed_def keyLocator_changed_def exclude_changed_def)

lemma polled_update [simp]:
  "polled (s\<lparr>i_changeCount := c\<rparr>) = (polled s)\<lparr>i_changeCount := c\<rparr>"
  "polled (s\<lparr>i_nonce := b\<rparr>) = (polled s)\<lparr>i_nonce := b\<rparr>"
  "polled (s\<lparr>i_getNonceChangeCount := g\<rparr>) = (polled s)\<lparr>i_getNonceChangeCount := g\<rparr>"
  by (simp_all add: polled_def)

lemma polled_fields [simp]:
  "i_changeCount (polled s) = i_changeCount s"
  "i_nonce (polled s) = i_nonce s"
  "i_getNonceChangeCount (polled s) = i_getNonceChangeCount s"
  "i_minSuffixComponents (polled s) = i_minSuffixComponents s"
  "i_maxSuffixComponents (polled s) = i_maxSuffixComponents s"
  "i_childSelector (polled s) = i_childSelector s"
  "i_mustBeFresh (polled s) = i_mustBeFresh s"
  "i_scope (polled s) = i_scope s"
  "i_interestLifetimeMilliseconds (polled s) = i_interestLifetimeMilliseconds s"
  "cc_target (i_name (polled s)) = cc_target (i_name s)"
  "cc_target (i_keyLocator (polled s)) = cc_target (i_keyLocator s)"
  "cc_target (i_exclude (polled s)) = cc_target (i_exclude s)"
  by (simp_all add: polled_def checkChanged_def)

lemma getChangeCount_eq:
  "getChangeCount s =
     (i_changeCount s + (if any_changed s then 1 else 0),
      (polled s)\<lparr>i_changeCount := i_changeCount s + (if any_changed s then 1 else 0)\<rparr>)"
  by (simp add: prod_eq_iff getChangeCount_fst getChangeCount_snd)

lemma getChangeCount_ge: "i_changeCount s \<le> fst (getChangeCount s)"
  by (simp add: getChangeCount_fst)

lemma getChangeCount_changeCount: "i_changeCount (snd (getChangeCount s)) = fst (getChangeCount s)"
  by (simp add: getChangeCount_eq)

text \<open>
  C2: every call of getChangeCount polls the three wrappers (each wrapper of the resulting
  state is the one left by its own checkChanged, whatever the earlier polls reported), the
  change count grows by exactly 1 when at least one poll reports a change and by nothing
  otherwise, and the value returned is the resulting change count.
\<close>

theorem getChangeCount_polls_all:
  "getChangeCount s =
     (i_changeCount (snd (getChangeCount s)),
      s\<lparr>i_name := snd (checkChanged name_changeCount (i_name s)),
        i_keyLocator := snd (checkChanged keyLocator_changeCount (i_keyLocator s)),
        i_exclude := snd (checkChanged exclude_changeCount (i_exclude s)),
        i_changeCount := i_changeCount s +
          (if fst (checkChanged name_changeCount (i_name s))
              \<or> fst (checkChanged keyLocator_changeCount (i_keyLocator s))
              \<or> fst (checkChanged exclude_changeCount (i_exclude s)) then 1 else 0)\<rparr>)"
  by (simp add: getChangeCount_def checkChanged_def Let_def)

text \<open>
  C6: for every Interest state, two calls of getChangeCount in a row, with nothing in
  between, return the same value: the polls of the second call report no change.
\<close>

theorem getChangeCount_twice:
  "fst (getChangeCount (snd (getChangeCount s))) = fst (getChangeCount s)
   \<and> \<not> any_changed (snd (getChangeCount s))"
  by (simp add: getChangeCount_fst getChangeCount_snd)

section \<open>The nonce\<close>

lemma nonce_valid_iff:
  "nonce_valid s \<longleftrightarrow> i_getNonceChangeCount s = i_changeCount s + (if any_changed s then 1 else 0)"
  by (simp add: nonce_valid_def getChangeCount_fst)

lemma getNonce_eq:
  "getNonce s =
     (if nonce_valid s then (i_nonce s, snd (getChangeCount s))
      else (Blob_empty, (snd (getChangeCount s))\<lparr>i_nonce := Blob_empty,
               i_getNonceChangeCount := fst (getChangeCount s)\<rparr>))"
  by (simp add: getNonce_def nonce_valid_iff getChangeCount_eq Let_def)

lemma getNonce_fst: "fst (getNonce s) = (if nonce_valid s then i_nonce s else Blob_empty)"
  by (simp add: getNonce_eq)

lemma nonce_valid_after_getNonce [simp]: "nonce_valid (snd (getNonce s))"
  by (simp add: getNonce_eq nonce_valid_iff getChangeCount_eq)

lemma getNonce_nonce: "i_nonce (snd (getNonce s)) = fst (getNonce s)"
  by (simp add: getNonce_eq getChangeCount_eq)

lemma getNonce_twice: "getNonce (snd (getNonce s)) = getNonce s"
  apply (simp add: getNonce_eq [of "snd (getNonce s)"] getNonce_nonce)
  apply (simp add: getNonce_eq getChangeCount_eq prod_eq_iff)
  done

lemma getNonce_changeCount:
  "i_changeCount (snd (getNonce s)) = fst (getChangeCount s)"
  by (simp add: getNonce_eq getChangeCount_eq)

lemma getNonce_snapshot:
  "i_getNonceChangeCount (snd (getNonce s)) = i_changeCount (snd (getNonce s))"
  by (simp add: getNonce_eq getChangeCount_eq nonce_valid_iff)

lemma getNonce_targets:
  "cc_target (i_name (snd (getNonce s))) = cc_target (i_name s)"
  "cc_target (i_exclude (snd (getNonce s))) = cc_target (i_exclude s)"
  "cc_target (i_keyLocator (snd (getNonce s))) = cc_target (i_keyLocator s)"
  by (simp_all add: getNonce_eq getChangeCount_eq)

lemmas setter_defs = setName_def setMinSuffixComponents_def setMaxSuffixComponents_def
  setKeyLocator_def setExclude_def setChildSelector_def setMustBeFresh_def setScope_def
  setInterestLifetimeMilliseconds_def

lemma apply_setter_changeCount: "i_changeCount (apply_setter x s) = i_changeCount s + 1"
  by (cases x) (simp_all add: setter_defs Let_def)

lemma apply_setter_nonce_fields:
  "i_getNonceChangeCount (apply_setter x s) = i_getNonceChangeCount s"
  "i_nonce (apply_setter x s) = i_nonce s"
  by (cases x; simp add: setter_defs Let_def)+

lemma setNonce_eq:
  "setNonce v s =
     (polled s)\<lparr>i_nonce := the_blob v,
                i_changeCount := i_changeCount s + 1 + (if any_changed s then 1 else 0),
                i_getNonceChangeCount := i_changeCount s + 1 + (if any_changed s then 1 else 0)\<rparr>"
  by (cases v) (simp_all add: setNonce_def getChangeCount_eq Let_def)

lemma setNonce_valid: "nonce_valid (setNonce v s)"
  by (simp add: setNonce_eq nonce_valid_iff)

lemma setNonce_then_setter_invalid: "\<not> nonce_valid (apply_setter x (setNonce v s))"
  by (simp add: nonce_valid_iff apply_setter_changeCount apply_setter_nonce_fields setNonce_eq)

text \<open>
  C1: for every Interest and every nonce value, getNonce right after setNonce returns the
  nonce that was set (the Blob itself, or the Blob made from a value that is not one);
  after setNonce followed by any of the setters of the other fields, getNonce returns the
  empty buffer, of size 0. In general getNonce returns the stored nonce when the nonce
  snapshot equals the recomputed change count, and otherwise the empty buffer; the stored
  nonce is then the value returned and the snapshot is the current change count.
\<close>

theorem nonce_read_after_set:
  "fst (getNonce (setNonce (PyBlob b) s)) = b
   \<and> fst (getNonce (setNonce v s)) = the_blob v
   \<and> fst (getNonce (apply_setter x (setNonce v s))) = Blob_empty
   \<and> blob_size (fst (getNonce (apply_setter x (setNonce v s)))) = 0
   \<and> fst (getNonce s) = (if nonce_valid s then i_nonce s else Blob_empty)
   \<and> i_nonce (snd (getNonce s)) = (if nonce_valid s then i_nonce s else Blob_empty)
   \<and> i_getNonceChangeCount (snd (getNonce s)) = i_changeCount (snd (getNonce s))
   \<and> i_changeCount (snd (getNonce s)) = fst (getChangeCount s)"
proof -
  have "fst (getNonce (setNonce v s)) = i_nonce (setNonce v s)"
    by (simp add: getNonce_fst setNonce_valid)
  then have v: "fst (getNonce (setNonce v s)) = the_blob v"
    by (simp add: setNonce_eq)
  have "fst (getNonce (setNonce (PyBlob b) s)) = i_nonce (setNonce (PyBlob b) s)"
    by (simp add: getNonce_fst setNonce_valid)
  then have b: "fst (getNonce (setNonce (PyBlob b) s)) = b"
    by (simp add: setNonce_eq)
  have e: "fst (getNonce (apply_setter x (setNonce v s))) = Blob_empty"
    by (simp add: getNonce_fst setNonce_then_setter_invalid)
  have z: "blob_size (fst (getNonce (apply_setter x (setNonce v s)))) = 0"
    by (simp add: e Blob_empty_def blob_size_def)
  have r: "fst (getNonce s) = (if nonce_valid s then i_nonce s else Blob_empty)"
    by (rule getNonce_fst)
  have n: "i_nonce (snd (getNonce s)) = (if nonce_valid s then i_nonce s else Blob_empty)"
    by (simp add: getNonce_nonce getNonce_fst)
  have g: "i_getNonceChangeCount (snd (getNonce s)) = i_changeCount (snd (getNonce s))"
    by (rule getNonce_snapshot)
  have c: "i_changeCount (snd (getNonce s)) = fst (getChangeCount s)"
    by (rule getNonce_changeCount)
  from b v e z r n g c show ?thesis by (intro conjI)
qed

section \<open>Mutation of the name in place\<close>

lemma mutate_changeCount [simp]:
  "i_changeCount (mutate_name n s) = i_changeCount s"
  "i_changeCount (mutate_keyLocator k s) = i_changeCount s"
  "i_changeCount (mutate_exclude e s) = i_changeCount s"
  by (simp_all add: mutate_name_def mutate_keyLocator_def mutate_exclude_def)

lemma name_changed_mutate:
  "name_changed (mutate_name n s) \<longleftrightarrow> cc_changeCount (i_name s) \<noteq> name_changeCount n"
  by (simp add: name_changed_def mutate_name_def checkChanged_def)

text \<open>
  The snapshot is not ahead of the counter after construction, after a poll and after a
  mutation in place that increases the counter.
\<close>

lemma name_observed_init: "name_observed (Interest_init v)"
  by (simp add: name_observed_def Interest_init_def ChangeCounter_new_def)

lemma name_observed_getChangeCount: "name_observed (snd (getChangeCount s))"
  by (simp add: name_observed_def getChangeCount_snd polled_def checkChanged_def)

lemma name_observed_getNonce: "name_observed (snd (getNonce s))"
  by (simp add: name_observed_def getNonce_eq getChangeCount_snd polled_def checkChanged_def)

lemma name_observed_setNonce: "name_observed (setNonce v s)"
  by (simp add: name_observed_def setNonce_eq polled_def checkChanged_def)

lemma name_observed_mutate_name:
  "name_observed s \<Longrightarrow> name_changeCount (cc_target (i_name s)) < name_changeCount n \<Longrightarrow>
     name_observed (mutate_name n s)"
  by (simp add: name_observed_def mutate_name_def)

lemma name_observed_other_setter:
  "name_observed s \<Longrightarrow> setter_field x \<noteq> FName \<Longrightarrow> name_observed (apply_setter x s)"
  by (cases x) (simp_all add: name_observed_def setter_defs Let_def)

text \<open>
  C8: when the name held by the wrapper is mutated in place, so that its counter
  increases, and the wrapper's snapshot was not ahead of the counter (as it is as long as
  setName is not called), the next getChangeCount or getNonce detects the change and
  increments the change count by 1, and a further getChangeCount or getNonce detects
  nothing and leaves the change count as it is.
\<close>

theorem name_mutation_detected_once:
  assumes obs: "name_observed s"
    and mut: "name_changeCount (cc_target (i_name s)) < name_changeCount n"
  shows "name_changed (mutate_name n s)
    \<and> fst (getChangeCount (mutate_name n s)) = i_changeCount s + 1
    \<and> \<not> any_changed (snd (getChangeCount (mutate_name n s)))
    \<and> fst (getChangeCount (snd (getChangeCount (mutate_name n s)))) = i_changeCount s + 1
    \<and> i_changeCount (snd (getNonce (mutate_name n s))) = i_changeCount s + 1
    \<and> \<not> any_changed (snd (getNonce (mutate_name n s)))
    \<and> i_changeCount (snd (getNonce (snd (getNonce (mutate_name n s))))) = i_changeCount s + 1
    \<and> fst (getChangeCount (snd (getNonce (mutate_name n s)))) = i_changeCount s + 1"
proof -
  let ?m = "mutate_name n s"
  have ch: "name_changed ?m"
    using obs mut by (simp add: name_changed_mutate name_observed_def)
  then have any: "any_changed ?m" by (simp add: any_changed_def)
  have g: "fst (getChangeCount ?m) = i_changeCount s + 1"
    using any by (simp add: getChangeCount_fst)
  have q: "\<not> any_changed (snd (getChangeCount ?m))" by (simp add: getChangeCount_snd)
  have g2: "fst (getChangeCount (snd (getChangeCount ?m))) = i_changeCount s + 1"
    using any by (simp add: getChangeCount_fst getChangeCount_snd)
  have n1: "i_changeCount (snd (getNonce ?m)) = i_changeCount s + 1"
    using g by (simp add: getNonce_changeCount)
  have qn: "\<not> any_changed (snd (getNonce ?m))"
    by (simp add: getNonce_eq getChangeCount_snd)
  have n2: "i_changeCount (snd (getNonce (snd (getNonce ?m)))) = i_changeCount s + 1"
    using n1 by (simp add: getNonce_twice)
  have g3: "fst (getChangeCount (snd (getNonce ?m))) = i_changeCount s + 1"
    using n1 qn by (simp add: getChangeCount_fst)
  from ch g q g2 n1 qn n2 g3 show ?thesis by (intro conjI)
qed

theorem name_mutation_detected_once_witness:
  "name_observed (Interest_init (PyName \<lparr>name_uri = ''/a'', name_changeCount = 0\<rparr>) :: unit interest)
   \<and> name_changeCount (cc_target (i_name
         (Interest_init (PyName \<lparr>name_uri = ''/a'', name_changeCount = 0\<rparr>) :: unit interest)))
       < name_changeCount \<lparr>name_uri = ''/a/b'', name_changeCount = 1\<rparr>
   \<and> fst (getChangeCount (mutate_name \<lparr>name_uri = ''/a/b'', name_changeCount = 1\<rparr>
         (Interest_init (PyName \<lparr>name_uri = ''/a'', name_changeCount = 0\<rparr>) :: unit interest))) = 1
   \<and> fst (getChangeCount (snd (getChangeCount
         (mutate_name \<lparr>name_uri = ''/a/b'', name_changeCount = 1\<rparr>
           (Interest_init (PyName \<lparr>name_uri = ''/a'', name_changeCount = 0\<rparr>) :: unit interest))))) = 1"
proof -
  let ?s = "Interest_init (PyName \<lparr>name_uri = ''/a'', name_changeCount = 0\<rparr>) :: unit interest"
  let ?n = "\<lparr>name_uri = ''/a/b'', name_changeCount = 1\<rparr>"
  have o: "name_observed ?s"
    by (simp add: name_observed_def Interest_init_def ChangeCounter_new_def)
  have m: "name_changeCount (cc_target (i_name ?s)) < name_changeCount ?n"
    by (simp add: Interest_init_def ChangeCounter_new_def)
  have c: "i_changeCount ?s = 0" by (simp add: Interest_init_def)
  from name_mutation_detected_once [OF o m] o m c show ?thesis by simp
qed

section \<open>The textual form\<close>

lemma amp_concat_join:
  "segs \<noteq> [] \<Longrightarrow> concat (map ((#) CHR ''&'') segs) = CHR ''&'' # join_amp segs"
  by (induction segs rule: join_amp.induct) simp_all

lemma uri_suffix_eq:
  "(if segs = [] then [] else ''?'' @ join_amp segs) =
     (if concat (map ((#) CHR ''&'') segs) \<noteq> []
      then ''?'' @ tl (concat (map ((#) CHR ''&'') segs)) else [])"
proof (cases "segs = []")
  case True
  then show ?thesis by simp
next
  case False
  then show ?thesis by (simp add: amp_concat_join)
qed

lemma if_append: "(if c then xs @ ys else xs) = xs @ (if c then ys else [])"
  by simp

lemma if_pair: "(if c then (a, s) else (b, s)) = (if c then a else b, s)"
  by simp

lemma opt_segment_if:
  "concat (map ((#) CHR ''&'') (opt_segment key sh v)) =
     (if v \<noteq> None then CHR ''&'' # key @ sh (the v) else [])"
  by (cases v) (simp_all add: opt_segment_def)

lemma flag_segment_if:
  "concat (map ((#) CHR ''&'') (if c then [x] else [])) = (if c then CHR ''&'' # x else [])"
  by simp

lemma nflag_segment_if:
  "concat (map ((#) CHR ''&'') (if c then [] else [x])) = (if \<not> c then CHR ''&'' # x else [])"
  by simp

lemma toUri_eq:
  "toUri ri rf esc s = (spec_uri ri rf esc s (fst (getNonce s)), snd (getNonce s))"
proof -
  obtain n1 s1 where gn: "getNonce s = (n1, s1)" by (cases "getNonce s")
  have gn2: "getNonce s1 = (n1, s1)" using getNonce_twice [of s] gn by simp
  have tn: "cc_target (i_name s1) = cc_target (i_name s)"
    and te: "cc_target (i_exclude s1) = cc_target (i_exclude s)"
    using getNonce_targets [of s] gn by simp_all
  have sz: "(0 < length n1) = (n1 \<noteq> [])" by simp
  show ?thesis
    unfolding spec_uri_def spec_segments_def uri_suffix_eq Let_def
    apply (simp only: map_append concat_append opt_segment_if flag_segment_if nflag_segment_if)
    apply (simp add: toUri_def gn gn2 if_pair if_append tn te sz blob_size_def blob_buf_def
        getExclude_def getName_def cc_get_def
        split del: if_split cong: if_cong)
    apply (rule if_cong)
      apply blast
     apply (rule refl)
    apply (rule refl)
    done
qed

lemma toUri_fst: "fst (toUri ri rf esc s) = spec_uri ri rf esc s (fst (getNonce s))"
  by (simp add: toUri_eq)

lemma toUri_snd: "snd (toUri ri rf esc s) = snd (getNonce s)"
  by (simp add: toUri_eq)

lemma Interest_init_nonce: "fst (getNonce (Interest_init v)) = Blob_empty"
  by (simp add: getNonce_fst Interest_init_def)

lemma setMustBeFresh_nonce: "fst (getNonce (setMustBeFresh b (Interest_init v))) = Blob_empty"
  by (simp add: getNonce_fst Interest_init_def setMustBeFresh_def)

text \<open>
  C7: toUri returns the name's URI followed by the segments that are present, in the
  order MinSuffixComponents, MaxSuffixComponents, ChildSelector, MustBeFresh=true, Scope,
  InterestLifetime, Nonce, Exclude, joined with \<open>&\<close> after a \<open>?\<close>; the nonce is
  the one read through getNonce. An Interest made from the name \<open>/a/b\<close> gives
  \<open>/a/b\<close>, and with mustBeFresh set to true it gives \<open>/a/b?ndn.MustBeFresh=true\<close>.
\<close>

theorem toUri_format:
  "fst (toUri ri rf esc s) = spec_uri ri rf esc s (fst (getNonce s))
   \<and> fst (toUri ri rf esc (Interest_init (PyName \<lparr>name_uri = ''/a/b'', name_changeCount = c\<rparr>)))
       = ''/a/b''
   \<and> fst (toUri ri rf esc (setMustBeFresh True
            (Interest_init (PyName \<lparr>name_uri = ''/a/b'', name_changeCount = c\<rparr>))))
       = ''/a/b?ndn.MustBeFresh=true''"
proof -
  let ?p = "Interest_init (PyName \<lparr>name_uri = ''/a/b'', name_changeCount = c\<rparr>) :: 'a interest"
  have g: "fst (toUri ri rf esc s) = spec_uri ri rf esc s (fst (getNonce s))"
    by (rule toUri_fst)
  have a: "fst (toUri ri rf esc ?p) = ''/a/b''"
    by (simp add: toUri_fst Interest_init_nonce)
       (simp add: spec_uri_def spec_segments_def opt_segment_def Interest_init_def
          ChangeCounter_new_def Exclude_empty_def Blob_empty_def)
  have b: "fst (toUri ri rf esc (setMustBeFresh True ?p)) = ''/a/b?ndn.MustBeFresh=true''"
    by (simp add: toUri_fst setMustBeFresh_nonce)
       (simp add: spec_uri_def spec_segments_def opt_segment_def Interest_init_def
          ChangeCounter_new_def Exclude_empty_def Blob_empty_def setMustBeFresh_def)
  from g a b show ?thesis by (intro conjI)
qed

text \<open>
  C9: toUri reads the nonce through getNonce. The URI is the textual form with the stored
  nonce when the nonce is valid at that moment and with the empty nonce, so without a
  Nonce segment, when it is not; the stored nonce afterwards is that value, and the nonce
  snapshot is the change count. The state after toUri is the state before it but for the
  nonce, the nonce snapshot, the change count and the snapshots of the three wrappers.
\<close>

theorem toUri_nonce_frame:
  "fst (toUri ri rf esc s) = spec_uri ri rf esc s (if nonce_valid s then i_nonce s else Blob_empty)
   \<and> i_nonce (snd (toUri ri rf esc s)) = (if nonce_valid s then i_nonce s else Blob_empty)
   \<and> i_getNonceChangeCount (snd (toUri ri rf esc s)) = i_changeCount (snd (toUri ri rf esc s))
   \<and> i_changeCount (snd (toUri ri rf esc s)) = fst (getChangeCount s)
   \<and> snd (toUri ri rf esc s) =
       s\<lparr>i_name := (i_name s)\<lparr>cc_changeCount := name_changeCount (cc_target (i_name s))\<rparr>,
         i_keyLocator := (i_keyLocator s)\<lparr>cc_changeCount :=
                            keyLocator_changeCount (cc_target (i_keyLocator s))\<rparr>,
         i_exclude := (i_exclude s)\<lparr>cc_changeCount :=
                            exclude_changeCount (cc_target (i_exclude s))\<rparr>,
         i_nonce := i_nonce (snd (toUri ri rf esc s)),
         i_getNonceChangeCount := i_getNonceChangeCount (snd (toUri ri rf esc s)),
         i_changeCount := i_changeCount (snd (toUri ri rf esc s))\<rparr>"
proof -
  have u: "fst (toUri ri rf esc s)
             = spec_uri ri rf esc s (if nonce_valid s then i_nonce s else Blob_empty)"
    by (simp only: toUri_fst getNonce_fst)
  have n: "i_nonce (snd (toUri ri rf esc s)) = (if nonce_valid s then i_nonce s else Blob_empty)"
    by (simp only: toUri_snd getNonce_nonce getNonce_fst)
  have g: "i_getNonceChangeCount (snd (toUri ri rf esc s)) = i_changeCount (snd (toUri ri rf esc s))"
    by (simp only: toUri_snd getNonce_snapshot)
  have c: "i_changeCount (snd (toUri ri rf esc s)) = fst (getChangeCount s)"
    by (simp only: toUri_snd getNonce_changeCount)
  have f: "snd (toUri ri rf esc s) =
       s\<lparr>i_name := (i_name s)\<lparr>cc_changeCount := name_changeCount (cc_target (i_name s))\<rparr>,
         i_keyLocator := (i_keyLocator s)\<lparr>cc_changeCount :=
                            keyLocator_changeCount (cc_target (i_keyLocator s))\<rparr>,
         i_exclude := (i_exclude s)\<lparr>cc_changeCount :=
                            exclude_changeCount (cc_target (i_exclude s))\<rparr>,
         i_nonce := i_nonce (snd (toUri ri rf esc s)),
         i_getNonceChangeCount := i_getNonceChangeCount (snd (toUri ri rf esc s)),
         i_changeCount := i_changeCount (snd (toUri ri rf esc s))\<rparr>"
    by (simp add: toUri_snd getNonce_eq getChangeCount_eq polled_def checkChanged_def)
  from u n g c f show ?thesis by (intro conjI)
qed

section \<open>The change count over sequences of operations\<close>

lemma exec_mono: "i_changeCount s \<le> i_changeCount (exec ri rf esc x s)"
proof (cases x)
  case (Setter y)
  then show ?thesis by (simp add: apply_setter_changeCount)
next
  case (SetNonce v)
  then show ?thesis by (simp add: setNonce_eq)
next
  case GetNonce
  then show ?thesis by (simp add: getNonce_changeCount getChangeCount_fst)
next
  case GetChangeCount
  then show ?thesis by (simp add: getChangeCount_changeCount getChangeCount_fst)
next
  case ToUri
  then show ?thesis by (simp add: toUri_snd getNonce_changeCount getChangeCount_fst)
qed simp_all

lemma run_mono: "i_changeCount s \<le> i_changeCount (run ri rf esc ops s)"
proof (induction ops arbitrary: s)
  case Nil
  then show ?case by (simp add: run_def)
next
  case (Cons x ops)
  have "i_changeCount s \<le> i_changeCount (exec ri rf esc x s)" by (rule exec_mono)
  also have "\<dots> \<le> i_changeCount (run ri rf esc ops (exec ri rf esc x s))" by (rule Cons.IH)
  finally show ?case by (simp add: run_def)
qed

text \<open>
  C5: over every sequence of operations (setters, setNonce, getNonce, getChangeCount,
  toUri and mutations of the sub-objects in place), the value returned by getChangeCount
  after the sequence is at least the value it returned before, and the change count
  never decreases; every setter increases the change count by 1, setNonce increases it,
  and getChangeCount after a setter returns more than it did before the setter; a poll
  that detects a change increases the change count by 1.
\<close>

theorem changeCount_monotone:
  "fst (getChangeCount s) \<le> fst (getChangeCount (run ri rf esc ops (snd (getChangeCount s))))
   \<and> i_changeCount s \<le> i_changeCount (run ri rf esc ops s)
   \<and> i_changeCount (apply_setter x s) = i_changeCount s + 1
   \<and> i_changeCount s < i_changeCount (setNonce v s)
   \<and> fst (getChangeCount s) < fst (getChangeCount (apply_setter x (snd (getChangeCount s))))
   \<and> i_changeCount (snd (getChangeCount s)) = i_changeCount s + (if any_changed s then 1 else 0)"
proof -
  let ?s1 = "snd (getChangeCount s)"
  have "fst (getChangeCount s) = i_changeCount ?s1" by (simp add: getChangeCount_changeCount)
  also have "\<dots> \<le> i_changeCount (run ri rf esc ops ?s1)" by (rule run_mono)
  also have "\<dots> \<le> fst (getChangeCount (run ri rf esc ops ?s1))" by (rule getChangeCount_ge)
  finally have a: "fst (getChangeCount s) \<le> fst (getChangeCount (run ri rf esc ops ?s1))" .
  have b: "i_changeCount s \<le> i_changeCount (run ri rf esc ops s)" by (rule run_mono)
  have c: "i_changeCount (apply_setter x s) = i_changeCount s + 1"
    by (rule apply_setter_changeCount)
  have d: "i_changeCount s < i_changeCount (setNonce v s)" by (simp add: setNonce_eq)
  have "fst (getChangeCount s) < i_changeCount (apply_setter x ?s1)"
    by (simp add: apply_setter_changeCount getChangeCount_changeCount)
  also have "\<dots> \<le> fst (getChangeCount (apply_setter x ?s1))" by (rule getChangeCount_ge)
  finally have e: "fst (getChangeCount s) < fst (getChangeCount (apply_setter x ?s1))" .
  have f: "i_changeCount ?s1 = i_changeCount s + (if any_changed s then 1 else 0)"
    by (simp add: getChangeCount_eq)
  from a b c d e f show ?thesis by (intro conjI)
qed

section \<open>The order of the setters\<close>

lemma apply_setter_commute:
  "setter_field x \<noteq> setter_field y \<Longrightarrow>
     apply_setter x (apply_setter y s) = apply_setter y (apply_setter x s)"
  by (cases x; cases y; simp add: setter_defs Let_def cc_set_def)

lemma apply_setters_permute:
  assumes "mset xs = mset ys" and "distinct (map setter_field xs)"
  shows "apply_setters xs s = apply_setters ys s"
proof -
  have "fold apply_setter xs = fold apply_setter ys"
  proof (rule fold_multiset_equiv)
    fix x y
    assume x: "x \<in> set xs" and y: "y \<in> set xs"
    show "apply_setter x \<circ> apply_setter y = apply_setter y \<circ> apply_setter x"
    proof (cases "x = y")
      case True
      then show ?thesis by simp
    next
      case False
      from assms(2) have "inj_on setter_field (set xs)" by (simp add: distinct_map)
      with x y False have "setter_field x \<noteq> setter_field y" by (auto dest: inj_onD)
      then show ?thesis by (auto simp: fun_eq_iff apply_setter_commute)
    qed
  qed (rule assms(1))
  then show ?thesis by (simp add: apply_setters_def)
qed

text \<open>
  C4, as the code has it: for setters of the fields other than the nonce, each field
  assigned at most once, two orders of the same calls give the same Interest, so the same
  URI and the same state after toUri; the same holds when setNonce is called after them.
\<close>

theorem toUri_setter_order:
  assumes "mset xs = mset ys" and "distinct (map setter_field xs)"
  shows "toUri ri rf esc (apply_setters xs s) = toUri ri rf esc (apply_setters ys s)
    \<and> toUri ri rf esc (setNonce v (apply_setters xs s))
        = toUri ri rf esc (setNonce v (apply_setters ys s))"
  using apply_setters_permute [OF assms] by simp

theorem toUri_setter_order_witness:
  "mset [SetScope (Some 1), SetMustBeFresh True :: unit setter]
      = mset [SetMustBeFresh True, SetScope (Some 1)]
   \<and> distinct (map setter_field [SetScope (Some 1), SetMustBeFresh True :: unit setter])
   \<and> toUri (\<lambda>i. ''1'') (\<lambda>u. []) (\<lambda>bs. ''%01'')
        (apply_setters [SetScope (Some 1), SetMustBeFresh True] (Interest_init PyNone :: unit interest))
      = toUri (\<lambda>i. ''1'') (\<lambda>u. []) (\<lambda>bs. ''%01'')
        (apply_setters [SetMustBeFresh True, SetScope (Some 1)] (Interest_init PyNone))"
proof -
  have m: "mset [SetScope (Some 1), SetMustBeFresh True :: unit setter]
            = mset [SetMustBeFresh True, SetScope (Some 1)]" by simp
  have d: "distinct (map setter_field [SetScope (Some 1), SetMustBeFresh True :: unit setter])"
    by simp
  have t: "toUri (\<lambda>i. ''1'') (\<lambda>u. []) (\<lambda>bs. ''%01'')
        (apply_setters [SetScope (Some 1), SetMustBeFresh True] (Interest_init PyNone :: unit interest))
      = toUri (\<lambda>i. ''1'') (\<lambda>u. []) (\<lambda>bs. ''%01'')
        (apply_setters [SetMustBeFresh True, SetScope (Some 1)] (Interest_init PyNone))"
    by (rule conjunct1 [OF toUri_setter_order [OF m d]])
  from m d t show ?thesis by (intro conjI)
qed

text \<open>
  With the nonce among the assignments the order matters: setNonce followed by
  setMustBeFresh gives a URI without the nonce, setMustBeFresh followed by setNonce gives
  one with it.
\<close>

theorem toUri_order_counterexample:
  "fst (toUri (\<lambda>i. ''1'') (\<lambda>u. []) (\<lambda>bs. ''%01'')
         (run (\<lambda>i. ''1'') (\<lambda>u. []) (\<lambda>bs. ''%01'')
            [SetNonce (PyBytes [1]), Setter (SetMustBeFresh True)]
            (Interest_init (PyName \<lparr>name_uri = ''/a/b'', name_changeCount = 0\<rparr>) :: unit interest)))
   \<noteq> fst (toUri (\<lambda>i. ''1'') (\<lambda>u. []) (\<lambda>bs. ''%01'')
         (run (\<lambda>i. ''1'') (\<lambda>u. []) (\<lambda>bs. ''%01'')
            [Setter (SetMustBeFresh True), SetNonce (PyBytes [1])]
            (Interest_init (PyName \<lparr>name_uri = ''/a/b'', name_changeCount = 0\<rparr>))))"
  by (simp add: run_def toUri_fst getNonce_fst setNonce_valid setNonce_then_setter_invalid
        [where x = "SetMustBeFresh True", simplified])
     (simp add: spec_uri_def spec_segments_def opt_segment_def setNonce_eq setMustBeFresh_def
        Interest_init_def polled_def checkChanged_def ChangeCounter_new_def Blob_empty_def
        Exclude_empty_def)

section \<open>setKeyLocator and setExclude\<close>

text \<open>
  C3: setKeyLocator called with a KeyLocator whose type is set stores the empty
  KeyLocator, not the argument, and setExclude called with a non-empty Exclude stores the
  empty Exclude: the comparison of \<open>type(v)\<close> with an instance never holds.
\<close>

theorem setKeyLocator_setExclude_store_default:
  "cc_target (i_keyLocator (setKeyLocator
      (PyKeyLocator \<lparr>keyLocator_type = Some 1, keyLocator_changeCount = 2\<rparr>)
      (Interest_init PyNone :: unit interest))) = KeyLocator_empty
   \<and> KeyLocator_empty \<noteq> \<lparr>keyLocator_type = Some 1, keyLocator_changeCount = 2\<rparr>
   \<and> cc_target (i_exclude (setExclude
      (PyExclude \<lparr>exclude_uri = ''a'', exclude_size = 1, exclude_changeCount = 1\<rparr>)
      (Interest_init PyNone :: unit interest))) = Exclude_empty
   \<and> Exclude_empty \<noteq> \<lparr>exclude_uri = ''a'', exclude_size = 1, exclude_changeCount = 1\<rparr>"
  by (simp add: setKeyLocator_def setExclude_def cc_set_def KeyLocator_empty_def Exclude_empty_def)

section \<open>Padding and its removal\<close>

lemma encrypt_padLength_bounds: "1 \<le> encrypt_padLength p \<and> encrypt_padLength p \<le> 16"
  by (simp add: encrypt_padLength_def)

lemma unat_padLength: "unat (of_nat (encrypt_padLength p) :: byte) = encrypt_padLength p"
proof -
  have "encrypt_padLength p < 256" using encrypt_padLength_bounds [of p] by simp
  then show ?thesis by (simp add: unat_of_nat)
qed

lemma length_encrypt_pad: "length (encrypt_pad p) = encrypt_padLength p"
  by (simp add: encrypt_pad_def Let_def)

lemma last_encrypt_pad: "last (p @ encrypt_pad p) = of_nat (encrypt_padLength p)"
  using encrypt_padLength_bounds [of p] by (simp add: encrypt_pad_def Let_def)

lemma encrypt_pad_nonempty: "encrypt_pad p \<noteq> []"
  using encrypt_padLength_bounds [of p] length_encrypt_pad [of p] by auto

lemma decrypt_unpad_pad: "decrypt_unpad (p @ encrypt_pad p) = Inr p"
  using encrypt_padLength_bounds [of p]
  by (simp add: decrypt_unpad_def encrypt_pad_nonempty last_encrypt_pad unat_padLength
      length_encrypt_pad Let_def)

text \<open>
  With a cipher that passes the bytes through, \<open>encrypt\<close> returns the plaintext followed
  by the pad and \<open>decrypt\<close> returns the plaintext.
\<close>

lemma decrypt_encrypt_passthrough:
  "algorithmType params = AesEcb \<or> algorithmType params = AesCbc \<Longrightarrow>
     encrypt AES_new (\<lambda>c bs. (bs, c)) keyBits p params = Inr (p @ encrypt_pad p)
     \<and> decrypt AES_new (\<lambda>c bs. (bs, c)) keyBits (p @ encrypt_pad p) params = Inr p"
  using decrypt_unpad_pad [of p] by (auto simp: encrypt_def decrypt_def Let_def blob_buf_def)

text \<open>
  C10: for every plaintext the pad made by encrypt has length 16 - (size mod 16), between
  1 and 16, every byte of it has the pad length as its value, the plaintext with the pad
  has a positive length that is a multiple of 16, and the unpad rule of decrypt (drop as
  many trailing bytes as the last byte says) gives the plaintext back.
\<close>

theorem aes_pad_unpad:
  "encrypt_padLength p = 16 - length p mod 16
   \<and> 1 \<le> encrypt_padLength p \<and> encrypt_padLength p \<le> 16
   \<and> length (encrypt_pad p) = encrypt_padLength p
   \<and> list_all (\<lambda>b. unat b = encrypt_padLength p) (encrypt_pad p)
   \<and> 0 < length (p @ encrypt_pad p)
   \<and> length (p @ encrypt_pad p) mod 16 = 0
   \<and> decrypt_unpad (p @ encrypt_pad p) = Inr p"
proof -
  have d: "encrypt_padLength p = 16 - length p mod 16"
    by (simp add: encrypt_padLength_def blob_size_def)
  have b: "1 \<le> encrypt_padLength p \<and> encrypt_padLength p \<le> 16"
    by (rule encrypt_padLength_bounds)
  have l: "length (encrypt_pad p) = encrypt_padLength p" by (rule length_encrypt_pad)
  have a: "list_all (\<lambda>b. unat b = encrypt_padLength p) (encrypt_pad p)"
    by (simp add: list_all_iff encrypt_pad_def Let_def unat_padLength)
  have pos: "0 < length (p @ encrypt_pad p)" using b l by simp
  have m: "length (p @ encrypt_pad p) mod 16 = 0"
    by (simp add: l encrypt_padLength_def blob_size_def) presburger
  have u: "decrypt_unpad (p @ encrypt_pad p) = Inr p" by (rule decrypt_unpad_pad)
  from d b l a pos m u show ?thesis by (intro conjI; simp)
qed

end
